theory Spec2Isabelle
  imports Main "HOL-Library.Word" "HOL-Library.Sublist"
begin

section \<open>Command helper (cmd/test\_utils/basic.go): argument rewriting\<close>

text \<open>
  A Go run-time panic is a value.  Indexing a slice out of range panics with the index and
  the length; \<open>rand.Intn\<close> panics on a non-positive bound.
\<close>

datatype panic = IndexOutOfRange nat nat | InvalidArgumentToIntn

definition index :: "'a list \<Rightarrow> nat \<Rightarrow> panic + 'a" where
  "index xs i = (if i < length xs then Inr (xs ! i) else Inl (IndexOutOfRange i (length xs)))"

text \<open>
  \<open>strings.Split(s, ",")\<close> of the Go standard library: the substrings between the
  separators, always at least one element.
\<close>

fun Split :: "string \<Rightarrow> char \<Rightarrow> string list" where
  "Split [] sep = [[]]"
| "Split (c # cs) sep =
     (if c = sep then [] # Split cs sep
      else (case Split cs sep of [] \<Rightarrow> [[c]] | w # ws \<Rightarrow> (c # w) # ws))"

text \<open>\<open>strings.Join(elems, sep)\<close>.\<close>

fun Join :: "string list \<Rightarrow> string \<Rightarrow> string" where
  "Join [] sep = []"
| "Join [x] sep = x"
| "Join (x # y # ys) sep = x @ sep @ Join (y # ys) sep"

text \<open>
  \<open>rand.Intn(n)\<close>: the argument \<open>r\<close> is the number the random source draws; the
  result lies in \<open>[0, n)\<close>, and every value of that range is the result of some draw.
\<close>

definition Intn :: "nat \<Rightarrow> nat \<Rightarrow> panic + nat" where
  "Intn r n = (if n = 0 then Inl InvalidArgumentToIntn else Inr (r mod n))"

text \<open>\<open>KeyringBackendSetup\<close>, basic.go lines 81-100.\<close>

definition KeyringBackendSetup :: "string list \<Rightarrow> panic + string list" where
  "KeyringBackendSetup args =
     (if length args = 0 then Inr args
      else
        let newArgs = args @ [''--keyring-backend'', ''test''] in
        case index args 0 of
          Inl p \<Rightarrow> Inl p
        | Inr a0 \<Rightarrow>
            if a0 = ''keys'' then Inr newArgs
            else if a0 = ''tx'' then
              (case index args 1 of
                 Inl p \<Rightarrow> Inl p
               | Inr a1 \<Rightarrow>
                   if a1 = ''sign'' then Inr newArgs
                   else
                     (case index args 1 of
                        Inl p \<Rightarrow> Inl p
                      | Inr a1' \<Rightarrow>
                          if a1' = ''pylons'' then
                            (case index args 2 of
                               Inl p \<Rightarrow> Inl p
                             | Inr a2 \<Rightarrow>
                                 if a2 = ''create-account'' then Inr newArgs else Inr args)
                          else Inr args))
            else Inr args)"

text \<open>
  \<open>NodeFlagSetup\<close>, basic.go lines 103-113.  \<open>customNode\<close> is the configured
  \<open>CLIOpts.CustomNode\<close>, \<open>r\<close> the draw of the random source.
\<close>

definition NodeFlagSetup :: "string \<Rightarrow> nat \<Rightarrow> string list \<Rightarrow> panic + string list" where
  "NodeFlagSetup customNode r args =
     (if length customNode > 0 then
        (case index args 0 of
           Inl p \<Rightarrow> Inl p
         | Inr a0 \<Rightarrow>
             if a0 = ''query'' \<or> a0 = ''tx'' \<or> a0 = ''status'' then
               (let customNodes = Split customNode (CHR '','') in
                case Intn r (length customNodes) of
                  Inl p \<Rightarrow> Inl p
                | Inr randNodeIndex \<Rightarrow>
                    (case index customNodes randNodeIndex of
                       Inl p \<Rightarrow> Inl p
                     | Inr randNode \<Rightarrow> Inr (args @ [''--node'', randNode])))
             else Inr args)
      else Inr args)"

text \<open>
  \<open>RunPylonsd\<close>, basic.go lines 116-125.  \<open>cmd\<close> stands for the external
  \<open>pylonsd\<close> process: from the argument vector and the standard input it yields the
  combined output and the error status (\<open>None\<close> is \<open>nil\<close>).
  \<open>execPylonsd\<close> is lines 119-124, the invocation on the rewritten arguments: the
  output, the log string and the error.  A panic of the rewriting leaves \<open>cmd\<close>
  uninvoked.
\<close>

definition execPylonsd ::
  "(string list \<Rightarrow> string \<Rightarrow> string \<times> string option) \<Rightarrow> string list \<Rightarrow> string \<Rightarrow>
   string \<times> string \<times> string option" where
  "execPylonsd cmd args stdinInput =
     (let (res, err) = cmd args stdinInput in
      (res,
       [CHR 0x22] @ ''pylonsd '' @ Join args '' '' @ [CHR 0x22] @ '' ==>'' @
         [CHR 0x0A] @ res @ [CHR 0x0A],
       err))"

definition RunPylonsd ::
  "(string list \<Rightarrow> string \<Rightarrow> string \<times> string option) \<Rightarrow> string \<Rightarrow> nat \<Rightarrow>
   string list \<Rightarrow> string \<Rightarrow> panic + (string \<times> string \<times> string option)" where
  "RunPylonsd cmd customNode r args stdinInput =
     (case NodeFlagSetup customNode r args of
        Inl p \<Rightarrow> Inl p
      | Inr args1 \<Rightarrow>
          (case KeyringBackendSetup args1 of
             Inl p \<Rightarrow> Inl p
           | Inr args2 \<Rightarrow> Inr (execPylonsd cmd args2 stdinInput)))"

section \<open>Command helper: transaction hash and block polling\<close>

text \<open>
  \<open>GetTxHashFromLog\<close>, basic.go lines 333-342, matches the fixed pattern
  \<^verbatim>\<open>"txhash":.*"(.*)"\<close>.  Go's \<open>regexp\<close> returns the leftmost match and, among
  the matches starting there, the one a backtracking search finds first; \<open>.*\<close> is
  greedy and \<open>.\<close> matches every character but the newline (byte \<open>0x0A\<close>).  The
  double quote is the byte \<open>0x22\<close>.

  \<open>match_group cap s\<close> matches \<^verbatim>\<open>(.*)"\<close> on \<open>s\<close>, \<open>cap\<close> being what the group has
  consumed so far; it yields the group's text.
\<close>

fun match_group :: "string \<Rightarrow> string \<Rightarrow> string option" where
  "match_group cap [] = None"
| "match_group cap (c # cs) =
     (case (if c = CHR 0x0A then None else match_group (cap @ [c]) cs) of
        Some g \<Rightarrow> Some g
      | None \<Rightarrow> if c = CHR 0x22 then Some cap else None)"

text \<open>
  \<open>match_rest s\<close> matches \<^verbatim>\<open>.*"(.*)"\<close> at the head of \<open>s\<close>: the text matched and
  the text of the group.
\<close>

fun match_rest :: "string \<Rightarrow> (string \<times> string) option" where
  "match_rest [] = None"
| "match_rest (c # cs) =
     (case (if c = CHR 0x0A then None else match_rest cs) of
        Some (w, g) \<Rightarrow> Some (c # w, g)
      | None \<Rightarrow>
          if c = CHR 0x22 then
            (case match_group [] cs of
               Some g \<Rightarrow> Some (c # g @ [CHR 0x22], g)
             | None \<Rightarrow> None)
          else None)"

definition txhash_key :: string where
  "txhash_key = [CHR 0x22] @ ''txhash'' @ [CHR 0x22] @ '':''"

definition match_here :: "string \<Rightarrow> (string \<times> string) option" where
  "match_here s =
     (if take (length txhash_key) s = txhash_key then
        (case match_rest (drop (length txhash_key) s) of
           Some (w, g) \<Rightarrow> Some (txhash_key @ w, g)
         | None \<Rightarrow> None)
      else None)"

text \<open>
  \<open>re.FindSubmatch\<close>: the empty slice (\<open>nil\<close>) when nothing matches, else the
  whole match followed by the text of group 1.
\<close>

fun FindSubmatch :: "string \<Rightarrow> string list" where
  "FindSubmatch [] = (case match_here [] of Some (w, g) \<Rightarrow> [w, g] | None \<Rightarrow> [])"
| "FindSubmatch (c # cs) =
     (case match_here (c # cs) of Some (w, g) \<Rightarrow> [w, g] | None \<Rightarrow> FindSubmatch cs)"

definition GetTxHashFromLog :: "string \<Rightarrow> string" where
  "GetTxHashFromLog result =
     (let caTxHashSearch = FindSubmatch result in
      if length caTxHashSearch \<le> 1 then []
      else caTxHashSearch ! 1)"

text \<open>
  \<open>WaitForBlockInterval\<close>, basic.go lines 209-229.  The node is the sequence
  \<open>status\<close> of what the successive calls of \<open>GetDaemonStatus\<close> return: the
  \<open>k\<close>-th call yields an error (its message) or the latest block height, an
  \<open>int64\<close>.  The result is the returned error (\<open>None\<close> is \<open>nil\<close>;
  \<open>WaitingTooLong\<close> is the value \<open>errors.New\<close> makes at line 228) and the trace of
  status queries and sleeps (in milliseconds) the call performs.
\<close>

datatype error = StatusError string | WaitingTooLong

datatype act = GetDaemonStatus | Sleep nat

function WaitLoop ::
  "(nat \<Rightarrow> string + 64 word) \<Rightarrow> 64 word \<Rightarrow> 64 word \<Rightarrow> 64 word \<Rightarrow> nat \<Rightarrow>
   error option \<times> act list" where
  "WaitLoop status interval currentBlock counter k =
     (if counter <s 300 * interval then
        (case status k of
           Inl err \<Rightarrow> (Some (StatusError err), [GetDaemonStatus])
         | Inr height \<Rightarrow>
             if currentBlock + interval \<le>s height then (None, [GetDaemonStatus])
             else
               (case WaitLoop status interval currentBlock (counter + 1) (Suc k) of
                  (r, tr) \<Rightarrow> (r, GetDaemonStatus # Sleep 100 # tr)))
      else (Some WaitingTooLong, []))"
  by pat_completeness auto
termination
proof (relation "measure (\<lambda>(status, interval, currentBlock, counter, k).
                    nat (sint (300 * interval) - sint counter))", goal_cases)
  case 1
  show ?case by simp
next
  case (2 status interval currentBlock counter k height)
  have lt: "sint counter < sint (300 * interval)"
    using 2(1) by (simp add: word_sless_alt)
  have "sint (300 * interval) < 2 ^ 63"
    using sint_lt [of "300 * interval"] by simp
  with lt have up: "sint counter + 1 < 2 ^ 63" by linarith
  have "- (2 ^ 63) \<le> sint counter"
    using sint_ge [of counter] by simp
  then have lo: "- (2 ^ 63) \<le> sint counter + 1" by linarith
  have "sint (counter + 1) = signed_take_bit 63 (sint counter + 1)"
    by (simp add: sint_word_ariths)
  also have "\<dots> = sint counter + 1"
    using lo up by (simp add: signed_take_bit_int_eq_self)
  finally show ?case using lt by simp
qed

declare WaitLoop.simps [simp del]

definition WaitForBlockInterval ::
  "(nat \<Rightarrow> string + 64 word) \<Rightarrow> 64 word \<Rightarrow> error option \<times> act list" where
  "WaitForBlockInterval status interval =
     (case status 0 of
        Inl err \<Rightarrow> (Some (StatusError err), [GetDaemonStatus])
      | Inr currentBlock \<Rightarrow>
          (case WaitLoop status interval currentBlock 1 1 of
             (r, tr) \<Rightarrow> (r, GetDaemonStatus # tr)))"

text \<open>\<open>WaitForNextBlock\<close>, basic.go lines 204-206.\<close>

definition WaitForNextBlock :: "(nat \<Rightarrow> string + 64 word) \<Rightarrow> error option \<times> act list" where
  "WaitForNextBlock status = WaitForBlockInterval status 1"

section \<open>Test context wrapper (package evtesting)\<close>

text \<open>
  \<open>log.Level\<close> of logrus is a \<open>uint32\<close>; its constants count from the least verbose.
\<close>

type_synonym Level = "32 word"

definition PanicLevel :: Level where "PanicLevel = 0"
definition FatalLevel :: Level where "FatalLevel = 1"
definition ErrorLevel :: Level where "ErrorLevel = 2"
definition WarnLevel :: Level where "WarnLevel = 3"
definition InfoLevel :: Level where "InfoLevel = 4"
definition DebugLevel :: Level where "DebugLevel = 5"
definition TraceLevel :: Level where "TraceLevel = 6"

text \<open>
  \<open>log.Fields\<close> is a Go map from string to value.  A value is kept as its \<open>%+v\<close>
  rendering.  The association list carries the entries in the order in which \<open>range\<close>
  yields them, which Go leaves unspecified; a lookup is \<open>map_of\<close>.  A \<open>*testing.T\<close>
  is the number of the native handle.  The field \<open>fields\<close> of the struct is
  \<open>fields_T\<close> here.
\<close>

type_synonym Fields = "(string \<times> string) list"
type_synonym handle = nat
type_synonym args = "string list"

record T =
  origin :: handle
  useLogPkg :: bool
  fields_T :: Fields
  logLevel :: Level

text \<open>
  What a call does to the outside, in order: a registered listener runs, the native
  handle logs, stops or is marked parallel, \<open>require.True\<close> is asked, the logrus
  package is given an entry (level, fields, arguments; \<open>Logrusf\<close> with a format).
\<close>

datatype event =
    Listener nat
  | OriginLog handle args
  | OriginFatal handle args
  | OriginFatalf handle string args
  | OriginParallel handle
  | RequireTrue handle bool
  | Logrus Level Fields args
  | Logrusf Level Fields string args

datatype outcome = Returns | Halts

text \<open>
  The package variable \<open>listeners\<close>: event name to callback.  A callback is known by
  its number, and running it is the event \<open>Listener\<close>; it is taken to return.
\<close>

type_synonym listeners = "string \<rightharpoonup> nat"

text \<open>\<open>NewT\<close>, lines 27-41: \<open>fresh\<close> is the handle made for a \<open>nil\<close> origin.\<close>

definition NewT :: "handle option \<Rightarrow> handle \<Rightarrow> T" where
  "NewT origin' fresh =
     (case origin' of
        Some h \<Rightarrow> \<lparr>origin = h, useLogPkg = False, fields_T = [], logLevel = DebugLevel\<rparr>
      | None \<Rightarrow> \<lparr>origin = fresh, useLogPkg = True, fields_T = [], logLevel = TraceLevel\<rparr>)"

text \<open>\<open>WithFields\<close>, lines 44-51: the struct the method builds.\<close>

definition WithFields :: "T \<Rightarrow> Fields \<Rightarrow> T" where
  "WithFields t fields' =
     \<lparr>origin = origin t, useLogPkg = useLogPkg t, fields_T = fields', logLevel = logLevel t\<rparr>"


text \<open>\<open>DispatchEvent\<close>, lines 67-71.\<close>

definition DispatchEvent :: "listeners \<Rightarrow> string \<Rightarrow> event list" where
  "DispatchEvent ls event =
     (case ls event of Some listener \<Rightarrow> [Listener listener] | None \<Rightarrow> [])"

text \<open>
  A \<open>runtime.Frame\<close>, and the \<open>%d\<close> rendering of its line.  The frame \<open>getFrame(2)\<close>
  finds on the call stack is an argument of every method that looks for it.
\<close>

record Frame =
  File :: string
  Line :: int
  Function :: string

fun dec_nat :: "nat \<Rightarrow> string" where
  "dec_nat n =
     (if n < 10 then [char_of (48 + n)]
      else dec_nat (n div 10) @ [char_of (48 + n mod 10)])"

declare dec_nat.simps [simp del]

definition Itoa :: "int \<Rightarrow> string" where
  "Itoa i = (if i < 0 then CHR ''-'' # dec_nat (nat (- i)) else dec_nat (nat i))"

text \<open>\<open>FormatFields\<close>, lines 114-134.\<close>

definition FormatFields :: "T \<Rightarrow> string" where
  "FormatFields t =
     (let data = fields_T t;
          keys = map fst data;
          fixedKeys = [] @ keys
      in foldl (\<lambda>formated key.
                  formated @ '' '' @ key @ ''='' @
                    (case map_of data key of Some v \<Rightarrow> v | None \<Rightarrow> ''<nil>''))
               [] fixedKeys)"

text \<open>\<open>printCallerLine\<close>, lines 96-111.\<close>

definition printCallerLine :: "T \<Rightarrow> Frame \<Rightarrow> event list" where
  "printCallerLine t frame =
     (if useLogPkg t then
        (let text = File frame @ '':'' @ Itoa (Line frame) @ '' '' @ Function frame in
         [Logrus TraceLevel
            [(''file_line'', File frame @ '':'' @ Itoa (Line frame)),
             (''func'', Function frame)]
            [text]])
      else
        (let nT = WithFields t
                    [(''file_line'', File frame @ '':'' @ Itoa (Line frame)),
                     (''func'', Function frame)]
         in [OriginLog (origin t) [FormatFields nT]]))"

text \<open>
  \<open>Fatal\<close> and \<open>Fatalf\<close>, lines 137-158.  The logrus \<open>Fatal\<close> exits the process
  and the native \<open>Fatal\<close> stops the test: neither returns.
\<close>

definition Fatal :: "listeners \<Rightarrow> T \<Rightarrow> Frame \<Rightarrow> args \<Rightarrow> event list \<times> outcome" where
  "Fatal ls t frame as =
     (DispatchEvent ls ''FAIL'' @ printCallerLine t frame @
        (if useLogPkg t then [Logrus FatalLevel (fields_T t) as]
         else [OriginLog (origin t) [FormatFields t], OriginFatal (origin t) as]),
      Halts)"

definition Fatalf :: "listeners \<Rightarrow> T \<Rightarrow> Frame \<Rightarrow> string \<Rightarrow> args \<Rightarrow> event list \<times> outcome" where
  "Fatalf ls t frame format as =
     (DispatchEvent ls ''FAIL'' @ printCallerLine t frame @
        (if useLogPkg t then [Logrusf FatalLevel (fields_T t) format as]
         else [OriginLog (origin t) [FormatFields t], OriginFatalf (origin t) format as]),
      Halts)"

text \<open>\<open>require.True\<close> of testify: a false value fails the test at once.\<close>

definition requireTrue :: "handle \<Rightarrow> bool \<Rightarrow> event list \<times> outcome" where
  "requireTrue h v = ([RequireTrue h v], if v then Returns else Halts)"

text \<open>\<open>MustTrue\<close>, lines 161-173.\<close>

definition MustTrue :: "listeners \<Rightarrow> T \<Rightarrow> Frame \<Rightarrow> bool \<Rightarrow> event list \<times> outcome" where
  "MustTrue ls t frame v =
     (let dispatched = (if \<not> v then DispatchEvent ls ''FAIL'' else []) in
      if useLogPkg t then
        (if \<not> v then
           (dispatched @ printCallerLine t frame @
              [Logrus FatalLevel [] [''MustTrue validation failure'']], Halts)
         else (dispatched, Returns))
      else
        (case requireTrue (origin t) v of (evs, oc) \<Rightarrow> (dispatched @ evs, oc)))"

text \<open>
  \<open>MustNil\<close>, lines 176-188.  The error is \<open>None\<close> for \<open>nil\<close>, else its rendering.
  \<open>frame\<close> is what \<open>MustNil\<close>'s own \<open>printCallerLine\<close> finds, \<open>frame'\<close> what the one
  inside the nested \<open>Fatal\<close> finds.
\<close>

definition MustNil ::
  "listeners \<Rightarrow> T \<Rightarrow> Frame \<Rightarrow> Frame \<Rightarrow> string option \<Rightarrow> event list \<times> outcome" where
  "MustNil ls t frame frame' err =
     (case err of
        None \<Rightarrow> ([], Returns)
      | Some e \<Rightarrow>
          if useLogPkg t then
            (case Fatal ls (WithFields t [(''error'', e)]) frame'
                    [''MustNil validation failure''] of
               (evs, oc) \<Rightarrow> (DispatchEvent ls ''FAIL'' @ printCallerLine t frame @ evs, oc))
          else
            (case requireTrue (origin t) (err = None) of
               (evs, oc) \<Rightarrow> (DispatchEvent ls ''FAIL'' @ evs, oc)))"

text \<open>\<open>Parallel\<close>, lines 191-193.\<close>

definition Parallel :: "T \<Rightarrow> event list \<times> outcome" where
  "Parallel t = ([OriginParallel (origin t)], Returns)"

text \<open>The logging methods, lines 196-258.\<close>

definition Log :: "T \<Rightarrow> args \<Rightarrow> event list \<times> outcome" where
  "Log t as =
     (if useLogPkg t then ([Logrus InfoLevel (fields_T t) as], Returns)
      else ([OriginLog (origin t) [FormatFields t], OriginLog (origin t) as], Returns))"

definition Info :: "T \<Rightarrow> args \<Rightarrow> event list \<times> outcome" where
  "Info t as =
     (if logLevel t < InfoLevel then ([], Returns)
      else if useLogPkg t then ([Logrus InfoLevel (fields_T t) as], Returns)
      else ([OriginLog (origin t) [FormatFields t], OriginLog (origin t) as], Returns))"

definition Warn :: "T \<Rightarrow> Frame \<Rightarrow> args \<Rightarrow> event list \<times> outcome" where
  "Warn t frame as =
     (if logLevel t < WarnLevel then ([], Returns)
      else
        (printCallerLine t frame @
           (if useLogPkg t then [Logrus WarnLevel (fields_T t) as]
            else [OriginLog (origin t) [FormatFields t], OriginLog (origin t) as]),
         Returns))"

definition Trace :: "T \<Rightarrow> Frame \<Rightarrow> args \<Rightarrow> event list \<times> outcome" where
  "Trace t frame as =
     (if logLevel t < TraceLevel then ([], Returns)
      else
        (printCallerLine t frame @
           (if useLogPkg t then [Logrus TraceLevel (fields_T t) as]
            else [OriginLog (origin t) [FormatFields t], OriginLog (origin t) as]),
         Returns))"

definition Debug :: "T \<Rightarrow> Frame \<Rightarrow> args \<Rightarrow> event list \<times> outcome" where
  "Debug t frame as =
     (if logLevel t < DebugLevel then ([], Returns)
      else
        (printCallerLine t frame @
           (if useLogPkg t then [Logrus DebugLevel (fields_T t) as]
            else [OriginLog (origin t) [FormatFields t], OriginLog (origin t) as]),
         Returns))"

subsection \<open>The methods on allocated contexts\<close>

text \<open>
  Every method has a pointer receiver.  The allocated \<open>T\<close> structs are a list and a
  \<open>*T\<close> is a position in it; a position beyond the list is a nil or dangling pointer,
  whose dereference panics.  \<open>WithFields\<close> and the closure inside \<open>Run\<close> allocate a
  struct; the temporary structs of \<open>printCallerLine\<close> and \<open>MustNil\<close> never leave
  their method and are not kept.  For \<open>Run\<close> the step is the construction of the child
  on the handle of the sub-test; the body is the test author's code.
\<close>

type_synonym heap = "T list"

datatype invocation =
    MWithFields Fields
  | MRun string handle
  | MDispatchEvent string
  | MFatal Frame args
  | MFatalf Frame string args
  | MMustTrue Frame bool
  | MMustNil Frame Frame "string option"
  | MParallel
  | MLog args
  | MInfo args
  | MWarn Frame args
  | MTrace Frame args
  | MDebug Frame args

datatype fault = NilDereference

definition call ::
  "listeners \<Rightarrow> heap \<Rightarrow> nat \<Rightarrow> invocation \<Rightarrow> fault + (heap \<times> nat option \<times> event list \<times> outcome)" where
  "call ls h p m =
     (if p < length h then
        (let t = h ! p in
         Inr (case m of
                MWithFields f \<Rightarrow> (h @ [WithFields t f], Some (length h), [], Returns)
              | MRun name subt \<Rightarrow>
                  (h @ [\<lparr>origin = subt, useLogPkg = useLogPkg t, fields_T = fields_T t,
                          logLevel = logLevel t\<rparr>], Some (length h), [], Returns)
              | MDispatchEvent e \<Rightarrow> (h, None, DispatchEvent ls e, Returns)
              | MFatal fr as \<Rightarrow> (case Fatal ls t fr as of (evs, oc) \<Rightarrow> (h, None, evs, oc))
              | MFatalf fr fmt as \<Rightarrow>
                  (case Fatalf ls t fr fmt as of (evs, oc) \<Rightarrow> (h, None, evs, oc))
              | MMustTrue fr v \<Rightarrow>
                  (case MustTrue ls t fr v of (evs, oc) \<Rightarrow> (h, None, evs, oc))
              | MMustNil fr fr' err \<Rightarrow>
                  (case MustNil ls t fr fr' err of (evs, oc) \<Rightarrow> (h, None, evs, oc))
              | MParallel \<Rightarrow> (case Parallel t of (evs, oc) \<Rightarrow> (h, None, evs, oc))
              | MLog as \<Rightarrow> (case Log t as of (evs, oc) \<Rightarrow> (h, None, evs, oc))
              | MInfo as \<Rightarrow> (case Info t as of (evs, oc) \<Rightarrow> (h, None, evs, oc))
              | MWarn fr as \<Rightarrow> (case Warn t fr as of (evs, oc) \<Rightarrow> (h, None, evs, oc))
              | MTrace fr as \<Rightarrow> (case Trace t fr as of (evs, oc) \<Rightarrow> (h, None, evs, oc))
              | MDebug fr as \<Rightarrow> (case Debug t fr as of (evs, oc) \<Rightarrow> (h, None, evs, oc))))
      else Inl NilDereference)"

section \<open>Properties of the test context wrapper\<close>

lemmas Level_defs = PanicLevel_def FatalLevel_def ErrorLevel_def WarnLevel_def InfoLevel_def
  DebugLevel_def TraceLevel_def

text \<open>
  C1, as the code has it: the context \<open>WithFields\<close> returns carries exactly the given
  field set \<open>f\<close>, on the receiver's native handle.  The receiver's entries are neither
  copied nor merged.
\<close>

theorem WithFields_replaces_fields:
  "fields_T (WithFields t f) = f \<and> origin (WithFields t f) = origin t"
  by (simp add: WithFields_def)

text \<open>
  C1 as stated fails: the key \<open>a\<close> is in the receiver's fields and not in the empty
  \<open>f\<close>, and it is not in the fields of the derived context.
\<close>

theorem WithFields_merge_counterexample:
  "map_of (fields_T \<lparr>origin = 0, useLogPkg = False, fields_T = [(''a'', ''1'')],
                     logLevel = DebugLevel\<rparr>) ''a'' = Some ''1''
   \<and> map_of ([] :: Fields) ''a'' = None
   \<and> map_of (fields_T (WithFields \<lparr>origin = 0, useLogPkg = False,
                                     fields_T = [(''a'', ''1'')], logLevel = DebugLevel\<rparr> []))
        ''a'' = None"
  by (simp add: WithFields_def)

text \<open>
  C2, as the code has it: \<open>Info\<close>, \<open>Warn\<close>, \<open>Trace\<close> and \<open>Debug\<close> on a context
  whose \<open>logLevel\<close> is below the level of the method do nothing at all, in either mode;
  \<open>Log\<close> compares no level and always emits.
\<close>

theorem threshold_suppresses:
  "(logLevel t < InfoLevel \<longrightarrow> Info t as = ([], Returns))
   \<and> (logLevel t < WarnLevel \<longrightarrow> Warn t fr as = ([], Returns))
   \<and> (logLevel t < TraceLevel \<longrightarrow> Trace t fr as = ([], Returns))
   \<and> (logLevel t < DebugLevel \<longrightarrow> Debug t fr as = ([], Returns))
   \<and> Log t as =
       (if useLogPkg t then [Logrus InfoLevel (fields_T t) as]
        else [OriginLog (origin t) [FormatFields t], OriginLog (origin t) as], Returns)"
  by (simp add: Info_def Warn_def Trace_def Debug_def Log_def)

theorem threshold_suppresses_witness:
  "ErrorLevel < InfoLevel \<and> ErrorLevel < WarnLevel \<and> ErrorLevel < TraceLevel
   \<and> ErrorLevel < DebugLevel
   \<and> Info \<lparr>origin = 0, useLogPkg = True, fields_T = [], logLevel = ErrorLevel\<rparr> [''m'']
       = ([], Returns)
   \<and> Warn \<lparr>origin = 0, useLogPkg = True, fields_T = [], logLevel = ErrorLevel\<rparr>
        \<lparr>File = ''a.go'', Line = 3, Function = ''f''\<rparr> [''m''] = ([], Returns)
   \<and> Trace \<lparr>origin = 0, useLogPkg = True, fields_T = [], logLevel = ErrorLevel\<rparr>
        \<lparr>File = ''a.go'', Line = 3, Function = ''f''\<rparr> [''m''] = ([], Returns)
   \<and> Debug \<lparr>origin = 0, useLogPkg = True, fields_T = [], logLevel = ErrorLevel\<rparr>
        \<lparr>File = ''a.go'', Line = 3, Function = ''f''\<rparr> [''m''] = ([], Returns)"
  using threshold_suppresses [of
      "\<lparr>origin = 0, useLogPkg = True, fields_T = [], logLevel = ErrorLevel\<rparr>"
      "[''m'']" "\<lparr>File = ''a.go'', Line = 3, Function = ''f''\<rparr>"]
  by (simp add: Level_defs)

text \<open>
  C2 as stated fails for \<open>Log\<close>: on a context whose \<open>logLevel\<close> is the least verbose
  one, below the \<open>Info\<close> severity at which \<open>Log\<close> emits, the call still emits, in the
  standalone mode and in the native mode.
\<close>

theorem Log_ignores_threshold_counterexample:
  "logLevel \<lparr>origin = 0, useLogPkg = True, fields_T = [], logLevel = PanicLevel\<rparr> < InfoLevel
   \<and> Log \<lparr>origin = 0, useLogPkg = True, fields_T = [], logLevel = PanicLevel\<rparr> [''m'']
       = ([Logrus InfoLevel [] [''m'']], Returns)
   \<and> Log \<lparr>origin = 0, useLogPkg = False, fields_T = [], logLevel = PanicLevel\<rparr> [''m'']
       = ([OriginLog 0 [[]], OriginLog 0 [''m'']], Returns)"
  by (simp add: Log_def Level_defs FormatFields_def)

text \<open>
  C5: \<open>WithFields\<close> on an allocated context returns without fault, allocates the
  derived context at a new address and leaves the receiver, its field set included, as
  it was.
\<close>

theorem WithFields_leaves_receiver:
  "p < length h \<Longrightarrow>
   call ls h p (MWithFields f) = Inr (h @ [WithFields (h ! p) f], Some (length h), [], Returns)
   \<and> (h @ [WithFields (h ! p) f]) ! p = h ! p
   \<and> fields_T ((h @ [WithFields (h ! p) f]) ! p) = fields_T (h ! p)
   \<and> length h \<noteq> p"
  by (simp add: call_def nth_append)

theorem WithFields_leaves_receiver_witness:
  "(0::nat) < length [\<lparr>origin = 0, useLogPkg = False, fields_T = [(''a'', ''1'')],
                       logLevel = DebugLevel\<rparr>]
   \<and> call Map.empty [\<lparr>origin = 0, useLogPkg = False, fields_T = [(''a'', ''1'')],
                       logLevel = DebugLevel\<rparr>] 0 (MWithFields [(''b'', ''2'')])
      = Inr ([\<lparr>origin = 0, useLogPkg = False, fields_T = [(''a'', ''1'')],
               logLevel = DebugLevel\<rparr>,
              \<lparr>origin = 0, useLogPkg = False, fields_T = [(''b'', ''2'')],
               logLevel = DebugLevel\<rparr>],
             Some 1, [], Returns)"
  using WithFields_leaves_receiver [of 0
      "[\<lparr>origin = 0, useLogPkg = False, fields_T = [(''a'', ''1'')], logLevel = DebugLevel\<rparr>]"
      Map.empty "[(''b'', ''2'')]"]
  by (simp add: WithFields_def)





text \<open>
  C9: on a standalone-mode context, \<open>MustNil\<close> of a non-nil error runs the listener
  registered under \<open>FAIL\<close> exactly twice, and does not return.
\<close>

theorem MustNil_dispatches_twice:
  "useLogPkg t \<Longrightarrow> ls ''FAIL'' = Some cb \<Longrightarrow>
   count_list (fst (MustNil ls t fr fr' (Some e))) (Listener cb) = 2
   \<and> snd (MustNil ls t fr fr' (Some e)) = Halts"
  by (simp add: MustNil_def Fatal_def DispatchEvent_def printCallerLine_def WithFields_def)

theorem MustNil_dispatches_twice_witness:
  "useLogPkg \<lparr>origin = 0, useLogPkg = True, fields_T = [], logLevel = TraceLevel\<rparr>
   \<and> [''FAIL'' \<mapsto> (7::nat)] ''FAIL'' = Some 7
   \<and> count_list (fst (MustNil [''FAIL'' \<mapsto> 7]
        \<lparr>origin = 0, useLogPkg = True, fields_T = [], logLevel = TraceLevel\<rparr>
        \<lparr>File = ''a.go'', Line = 3, Function = ''f''\<rparr>
        \<lparr>File = ''t.go'', Line = 183, Function = ''MustNil''\<rparr> (Some ''boom''))) (Listener 7) = 2"
  using MustNil_dispatches_twice [of
      "\<lparr>origin = 0, useLogPkg = True, fields_T = [], logLevel = TraceLevel\<rparr>"
      "[''FAIL'' \<mapsto> 7]" 7 "\<lparr>File = ''a.go'', Line = 3, Function = ''f''\<rparr>"
      "\<lparr>File = ''t.go'', Line = 183, Function = ''MustNil''\<rparr>" "''boom''"]
  by simp

section \<open>Properties of the command helper\<close>

text \<open>
  C10 fails on the code: \<open>KeyringBackendSetup\<close> reads \<open>args[1]\<close> of the one-element
  list \<open>tx\<close> and \<open>args[2]\<close> of the two-element list \<open>tx pylons\<close>, and
  \<open>NodeFlagSetup\<close> reads \<open>args[0]\<close> of the empty list under the default node string;
  each read is out of range and panics.
\<close>

theorem setup_panics_on_short_arguments:
  "KeyringBackendSetup [''tx''] = Inl (IndexOutOfRange 1 1)
   \<and> KeyringBackendSetup [''tx'', ''pylons''] = Inl (IndexOutOfRange 2 2)
   \<and> NodeFlagSetup ''tcp://localhost:26657'' 0 [] = Inl (IndexOutOfRange 0 0)"
  by (simp add: KeyringBackendSetup_def NodeFlagSetup_def index_def)

text \<open>
  What \<open>GetTxHashFromLog\<close> does get right: without the key \<^verbatim>\<open>"txhash":\<close> in the
  input the result is empty, and a hash that is the last quoted string of its line is
  found.
\<close>

lemma match_here_absent: "\<not> sublist txhash_key s \<Longrightarrow> match_here s = None"
proof -
  assume a: "\<not> sublist txhash_key s"
  have "take (length txhash_key) s \<noteq> txhash_key"
  proof
    assume "take (length txhash_key) s = txhash_key"
    then have "prefix txhash_key s" by (metis take_is_prefix)
    then show False using a by (simp add: prefix_imp_sublist)
  qed
  then show ?thesis by (simp add: match_here_def)
qed

lemma GetTxHashFromLog_absent:
  "\<not> sublist txhash_key result \<Longrightarrow> GetTxHashFromLog result = []"
proof -
  have "\<not> sublist txhash_key s \<Longrightarrow> FindSubmatch s = []" for s
  proof (induction s)
    case Nil
    then show ?case by (simp add: match_here_absent)
  next
    case (Cons c cs)
    from Cons.prems have "\<not> sublist txhash_key cs" by (simp add: sublist_Cons_right)
    with Cons show ?case by (simp add: match_here_absent)
  qed
  then show "\<not> sublist txhash_key result \<Longrightarrow> GetTxHashFromLog result = []"
    by (simp add: GetTxHashFromLog_def)
qed

lemma GetTxHashFromLog_own_line:
  \<open>GetTxHashFromLog (''{'' @ [CHR 0x0A] @ ''  "txhash": "ABC123",'' @ [CHR 0x0A]
      @ ''  "code": "0"'' @ [CHR 0x0A] @ ''}'') = ''ABC123''\<close>
  by (simp add: GetTxHashFromLog_def match_here_def txhash_key_def)

text \<open>
  C8 fails on the code: on a line that holds a further quoted string after the hash, the
  greedy \<open>.*\<close> runs to the last pair of quotes of the line, and the result is that
  string, not the hash.
\<close>

theorem GetTxHashFromLog_greedy:
  \<open>GetTxHashFromLog ''{"txhash": "ABC123", "code": "0"}'' = ''0''\<close>
  by (simp add: GetTxHashFromLog_def match_here_def txhash_key_def)

section \<open>Properties of the block polling\<close>























section \<open>Properties of the argument rewriting\<close>

lemma Split_not_Nil: "Split s c \<noteq> []"
  by (induction s) (auto split: list.splits)

lemma NodeFlagSetup_eq:
  "NodeFlagSetup customNode r args =
     (if customNode = [] then Inr args
      else case args of
        [] \<Rightarrow> Inl (IndexOutOfRange 0 0)
      | a # _ \<Rightarrow>
          if a = ''query'' \<or> a = ''tx'' \<or> a = ''status'' then
            Inr (args @ [''--node'',
                   Split customNode (CHR '','') ! (r mod length (Split customNode (CHR '','')))])
          else Inr args)"
  using Split_not_Nil [of customNode "CHR '',''"]
  by (auto simp: NodeFlagSetup_def index_def Intn_def Let_def split: list.splits)

lemma KeyringBackendSetup_eq:
  "KeyringBackendSetup args =
     (case args of
        [] \<Rightarrow> Inr []
      | a # as \<Rightarrow>
          if a = ''keys'' then Inr (args @ [''--keyring-backend'', ''test''])
          else if a = ''tx'' then
            (case as of
               [] \<Rightarrow> Inl (IndexOutOfRange 1 1)
             | b # bs \<Rightarrow>
                 if b = ''sign'' then Inr (args @ [''--keyring-backend'', ''test''])
                 else if b = ''pylons'' then
                   (case bs of
                      [] \<Rightarrow> Inl (IndexOutOfRange 2 2)
                    | c # _ \<Rightarrow>
                        if c = ''create-account''
                        then Inr (args @ [''--keyring-backend'', ''test''])
                        else Inr args)
                 else Inr args)
          else Inr args)"
  by (simp add: KeyringBackendSetup_def index_def Let_def split: list.splits)


lemma list3_cases:
  obtains "xs = []" | a where "xs = [a]" | a b where "xs = [a, b]"
    | a b c ys where "xs = a # b # c # ys"
  by (metis list.exhaust)

lemma rewrite_eq:
  "(case NodeFlagSetup customNode r args of
      Inl p \<Rightarrow> Inl p | Inr args1 \<Rightarrow> KeyringBackendSetup args1) = Inr res \<Longrightarrow>
   res = args
     @ (if customNode \<noteq> [] \<and>
           (prefix [''query''] args \<or> prefix [''tx''] args \<or> prefix [''status''] args)
        then [''--node'',
              Split customNode (CHR '','') ! (r mod length (Split customNode (CHR '','')))]
        else [])
     @ (if prefix [''keys''] args \<or> prefix [''tx'', ''sign''] args
           \<or> prefix [''tx'', ''pylons'', ''create-account''] args
        then [''--keyring-backend'', ''test''] else [])"
  unfolding NodeFlagSetup_eq KeyringBackendSetup_eq
  by (cases args rule: list3_cases) (auto split: if_splits)

lemma rewrite_returns:
  "prefix [''keys''] args \<or> prefix [''tx'', ''sign''] args
     \<or> prefix [''tx'', ''pylons'', ''create-account''] args
     \<or> (customNode \<noteq> [] \<and>
         (prefix [''query''] args \<or> prefix [''tx''] args \<or> prefix [''status''] args)) \<Longrightarrow>
   \<exists>res. (case NodeFlagSetup customNode r args of
      Inl p \<Rightarrow> Inl p | Inr args1 \<Rightarrow> KeyringBackendSetup args1) = Inr res"
  unfolding NodeFlagSetup_eq KeyringBackendSetup_eq
  by (cases args rule: list3_cases) (auto split: if_splits)


text \<open>
  C4: whenever \<open>RunPylonsd\<close> reaches the external command, the command is given the
  original arguments, followed by one \<open>--node\<close> pair, whose entry is an element of the
  comma-separated node list, exactly when the node string is non-empty and the first
  argument is \<open>query\<close>, \<open>tx\<close> or \<open>status\<close>, followed by the pair
  \<open>--keyring-backend test\<close> exactly when the first argument is \<open>keys\<close> or the
  arguments begin with \<open>tx sign\<close> or \<open>tx pylons create-account\<close>; nothing else is
  changed.  And in each of the shapes that call for a rewriting the command is reached.
\<close>

theorem RunPylonsd_rewrites_arguments:
  "(RunPylonsd cmd customNode r args stdinInput = Inr out \<longrightarrow>
      (\<exists>e. e \<in> set (Split customNode (CHR '','')) \<and>
         out = execPylonsd cmd
                 (args
                  @ (if customNode \<noteq> [] \<and>
                        (prefix [''query''] args \<or> prefix [''tx''] args
                         \<or> prefix [''status''] args)
                     then [''--node'', e] else [])
                  @ (if prefix [''keys''] args \<or> prefix [''tx'', ''sign''] args
                        \<or> prefix [''tx'', ''pylons'', ''create-account''] args
                     then [''--keyring-backend'', ''test''] else []))
                 stdinInput))
   \<and> (prefix [''keys''] args \<or> prefix [''tx'', ''sign''] args
        \<or> prefix [''tx'', ''pylons'', ''create-account''] args
        \<or> (customNode \<noteq> [] \<and>
            (prefix [''query''] args \<or> prefix [''tx''] args \<or> prefix [''status''] args)) \<longrightarrow>
      (\<exists>res. RunPylonsd cmd customNode r args stdinInput = Inr res))"
proof (intro conjI impI)
  let ?nodes = "Split customNode (CHR '','')"
  let ?e = "?nodes ! (r mod length ?nodes)"
  assume run: "RunPylonsd cmd customNode r args stdinInput = Inr out"
  then obtain args2 where
    rw: "(case NodeFlagSetup customNode r args of
            Inl p \<Rightarrow> Inl p | Inr args1 \<Rightarrow> KeyringBackendSetup args1) = Inr args2"
    and out: "out = execPylonsd cmd args2 stdinInput"
    by (auto simp: RunPylonsd_def split: sum.splits)
  have "?nodes \<noteq> []" by (rule Split_not_Nil)
  then have "?e \<in> set ?nodes" by simp
  moreover note rewrite_eq [OF rw] out
  ultimately show "\<exists>e. e \<in> set ?nodes \<and>
         out = execPylonsd cmd
                 (args
                  @ (if customNode \<noteq> [] \<and>
                        (prefix [''query''] args \<or> prefix [''tx''] args
                         \<or> prefix [''status''] args)
                     then [''--node'', e] else [])
                  @ (if prefix [''keys''] args \<or> prefix [''tx'', ''sign''] args
                        \<or> prefix [''tx'', ''pylons'', ''create-account''] args
                     then [''--keyring-backend'', ''test''] else []))
                 stdinInput"
    by blast
next
  assume "prefix [''keys''] args \<or> prefix [''tx'', ''sign''] args
        \<or> prefix [''tx'', ''pylons'', ''create-account''] args
        \<or> (customNode \<noteq> [] \<and>
            (prefix [''query''] args \<or> prefix [''tx''] args \<or> prefix [''status''] args))"
  then obtain args2 where
    "(case NodeFlagSetup customNode r args of
        Inl p \<Rightarrow> Inl p | Inr args1 \<Rightarrow> KeyringBackendSetup args1) = Inr args2"
    using rewrite_returns [of args customNode r] by blast
  then have "RunPylonsd cmd customNode r args stdinInput
               = Inr (execPylonsd cmd args2 stdinInput)"
    by (auto simp: RunPylonsd_def split: sum.splits)
  then show "\<exists>res. RunPylonsd cmd customNode r args stdinInput = Inr res"
    by blast
qed

theorem RunPylonsd_rewrites_arguments_witness:
  "RunPylonsd (\<lambda>a s. (Join a '' '', None)) ''n1,n2'' 1 [''query'', ''account'', ''X''] []
     = Inr (execPylonsd (\<lambda>a s. (Join a '' '', None))
              [''query'', ''account'', ''X'', ''--node'', ''n2''] [])
   \<and> RunPylonsd (\<lambda>a s. (Join a '' '', None)) ''n1,n2'' 1 [''keys'', ''show'', ''alice'', ''-a''] []
     = Inr (execPylonsd (\<lambda>a s. (Join a '' '', None))
              [''keys'', ''show'', ''alice'', ''-a'', ''--keyring-backend'', ''test''] [])
   \<and> (\<exists>res. RunPylonsd (\<lambda>a s. (Join a '' '', None)) ''n1,n2'' 1 [''tx'', ''sign''] []
              = Inr res)"
  using RunPylonsd_rewrites_arguments [of "\<lambda>a s. (Join a '' '', None)" "''n1,n2''" 1
      "[''tx'', ''sign'']" "[]"
      "execPylonsd (\<lambda>a s. (Join a '' '', None))
         [''tx'', ''sign'', ''--node'', ''n2'', ''--keyring-backend'', ''test''] []"]
  by (simp add: RunPylonsd_def NodeFlagSetup_def KeyringBackendSetup_def index_def Intn_def)

end
